theory Spec2Isabelle
  imports Main "HOL-Library.Sublist" "HOL-Library.AList"
begin

section \<open>Strings and the regular expressions of renderer.js and remark.js\<close>

text \<open>
  A JavaScript string is modelled as a \<^typ>\<open>string\<close>: a list of characters, each
  standing for the code unit of the same number (0 to 255). In that range the class
  \<^verbatim>\<open>\s\<close> of a regular expression, which is also what \<^verbatim>\<open>String.prototype.trim\<close>
  removes, holds TAB, LF, VT, FF, CR, SPACE and NBSP; the dot matches everything except
  the line terminators LF and CR.
\<close>

definition isSpace :: "char \<Rightarrow> bool" where
  "isSpace c \<longleftrightarrow>
     c = CHR 0x09 \<or> c = CHR 0x0A \<or> c = CHR 0x0B \<or> c = CHR 0x0C \<or> c = CHR 0x0D \<or>
     c = CHR 0x20 \<or> c = CHR 0xA0"

definition isLineTerminator :: "char \<Rightarrow> bool" where
  "isLineTerminator c \<longleftrightarrow> c = CHR 0x0A \<or> c = CHR 0x0D"

definition trim :: "string \<Rightarrow> string" where
  "trim s = rev (dropWhile isSpace (rev (dropWhile isSpace s)))"

text \<open>
  \<open>split_first pat s\<close> cuts \<open>s\<close> at the leftmost occurrence of the literal \<open>pat\<close> and
  returns the text before and the text after it.
\<close>

fun split_first :: "'a list \<Rightarrow> 'a list \<Rightarrow> ('a list \<times> 'a list) option" where
  "split_first pat [] = (if pat = [] then Some ([], []) else None)"
| "split_first pat (c # cs) =
     (if prefix pat (c # cs) then Some ([], drop (length pat) (c # cs))
      else (case split_first pat cs of
              None \<Rightarrow> None
            | Some (pre, post) \<Rightarrow> Some (c # pre, post)))"

text \<open>
  \<^verbatim>\<open>metadataBlockRegex = /---([\s\S]*?)---/\<close>. The leftmost match starts at the
  first \<^verbatim>\<open>---\<close>; the lazy group ends at the next \<^verbatim>\<open>---\<close> after it. The result
  is the text before the match, group 1, and the text after the match.
\<close>

definition metadataBlockRegex :: "string \<Rightarrow> (string \<times> string \<times> string) option" where
  "metadataBlockRegex s =
     (case split_first ''---'' s of
        None \<Rightarrow> None
      | Some (pre, rest) \<Rightarrow>
          (case split_first ''---'' rest of
             None \<Rightarrow> None
           | Some (grp, post) \<Rightarrow> Some (pre, grp, post)))"

text \<open>\<^verbatim>\<open>m = s.match(metadataBlockRegex); m ? m[1] : ''\<close>\<close>

definition metadataContent :: "string \<Rightarrow> string" where
  "metadataContent s =
     (case metadataBlockRegex s of None \<Rightarrow> [] | Some (pre, grp, post) \<Rightarrow> grp)"

text \<open>\<^verbatim>\<open>s.replace(metadataBlockRegex, '')\<close>: the first match is removed.\<close>

definition replace_metadataBlock :: "string \<Rightarrow> string" where
  "replace_metadataBlock s =
     (case metadataBlockRegex s of None \<Rightarrow> s | Some (pre, grp, post) \<Rightarrow> pre @ post)"

text \<open>
  \<^verbatim>\<open>idRegex = /id:\s*(.*)/\<close>. The match starts at the first \<^verbatim>\<open>id:\<close>; the greedy
  \<^verbatim>\<open>\s*\<close> takes all the white space that follows and the group takes the rest of the
  line. The result is group 1 of the match.
\<close>

definition idRegex :: "string \<Rightarrow> string option" where
  "idRegex s =
     (case split_first ''id:'' s of
        None \<Rightarrow> None
      | Some (pre, rest) \<Rightarrow>
          Some (takeWhile (\<lambda>c. \<not> isLineTerminator c) (dropWhile isSpace rest)))"

text \<open>
  A regular expression \<^verbatim>\<open>/key\s*lit/\<close> matches at the start of \<open>s\<close> when \<open>s\<close> begins
  with \<open>key\<close>, followed by any white space, followed by \<open>lit\<close>; it matches \<open>s\<close> when it
  matches at some position of \<open>s\<close>.
\<close>

definition key_space_lit :: "string \<Rightarrow> string \<Rightarrow> string \<Rightarrow> bool" where
  "key_space_lit key lit s \<longleftrightarrow>
     prefix key s \<and> prefix lit (dropWhile isSpace (drop (length key) s))"

fun regex_test :: "(string \<Rightarrow> bool) \<Rightarrow> string \<Rightarrow> bool" where
  "regex_test P [] = P []"
| "regex_test P (c # cs) = (P (c # cs) \<or> regex_test P cs)"

text \<open>\<^verbatim>\<open>prerenderRegex = /prerender:\s*false/\<close> and \<^verbatim>\<open>draftRegex = /draft:\s*true/\<close>\<close>

definition prerenderRegex :: "string \<Rightarrow> bool" where
  "prerenderRegex s = regex_test (key_space_lit ''prerender:'' ''false'') s"

definition draftRegex :: "string \<Rightarrow> bool" where
  "draftRegex s = regex_test (key_space_lit ''draft:'' ''true'') s"

text \<open>
  \<^verbatim>\<open>/i18n\/([^\/]+)\//\<close>: \<^verbatim>\<open>i18n/\<close>, a non-empty run of characters other than the
  slash, and a slash. \<open>localeRegex\<close> returns group 1 of the leftmost match.
\<close>

definition locale_at :: "string \<Rightarrow> string option" where
  "locale_at s =
     (if prefix ''i18n/'' s then
        (let rest = drop 5 s;
             seg = takeWhile (\<lambda>c. c \<noteq> CHR ''/'') rest
         in if seg \<noteq> [] \<and> length seg < length rest then Some seg else None)
      else None)"

fun localeRegex :: "string \<Rightarrow> string option" where
  "localeRegex [] = None"
| "localeRegex (c # cs) =
     (case locale_at (c # cs) of Some l \<Rightarrow> Some l | None \<Rightarrow> localeRegex cs)"

text \<open>
  \<^verbatim>\<open>content.match(/```mermaid([\s\S]*?)```/g) || []\<close>: every match, left to right, each
  from an opening \<^verbatim>\<open>```mermaid\<close> to the nearest \<^verbatim>\<open>```\<close> after it; the search
  resumes after the closing fence.
\<close>

definition fence :: string where
  "fence = ''```''"

definition fence_mermaid :: string where
  "fence_mermaid = ''```mermaid''"

definition next_block :: "string \<Rightarrow> (string \<times> string) option" where
  "next_block s =
     (case split_first fence_mermaid s of
        None \<Rightarrow> None
      | Some (pre, rest) \<Rightarrow>
          (case split_first fence rest of
             None \<Rightarrow> None
           | Some (inner, post) \<Rightarrow> Some (fence_mermaid @ inner @ fence, post)))"

lemma split_first_append: "split_first pat s = Some (pre, post) \<Longrightarrow> s = pre @ pat @ post"
proof (induction s arbitrary: pre)
  case Nil
  then show ?case by (simp split: if_splits)
next
  case (Cons c cs)
  show ?case
  proof (cases "prefix pat (c # cs)")
    case True
    then have "pat @ drop (length pat) (c # cs) = c # cs"
      by (metis append_eq_conv_conj prefixE)
    moreover from True Cons.prems have "pre = []" "post = drop (length pat) (c # cs)"
      by simp_all
    ultimately show ?thesis by (simp only: append_Nil)
  next
    case False
    with Cons.prems obtain pre' where "split_first pat cs = Some (pre', post)" "pre = c # pre'"
      by (auto split: option.splits)
    with Cons.IH show ?thesis by simp
  qed
qed

lemma split_first_length:
  "split_first pat s = Some (pre, post) \<Longrightarrow> length pre + length pat + length post = length s"
  by (drule split_first_append) simp

lemma next_block_shorter: "next_block s = Some (block, post) \<Longrightarrow> length post < length s"
  by (auto simp: next_block_def fence_def fence_mermaid_def
      split: option.splits dest!: split_first_length)

function mermaidBlocks :: "string \<Rightarrow> string list" where
  "mermaidBlocks s =
     (case next_block s of
        None \<Rightarrow> []
      | Some (block, post) \<Rightarrow> block # mermaidBlocks post)"
  by pat_completeness auto
termination
  by (relation "measure length") (auto dest: next_block_shorter)

declare mermaidBlocks.simps [simp del]

text \<open>
  \<^verbatim>\<open>block.replace(/```mermaid|```/g, '')\<close>: every fence is removed, the longer
  alternative first.
\<close>

fun strip_fences :: "string \<Rightarrow> string" where
  "strip_fences [] = []"
| "strip_fences (c # cs) =
     (if prefix fence_mermaid (c # cs) then strip_fences (drop 10 (c # cs))
      else if prefix fence (c # cs) then strip_fences (drop 3 (c # cs))
      else c # strip_fences cs)"

section \<open>Planning: from content files to render tasks\<close>

text \<open>
  Two functions of the Node.js runtime are parameters of the model: the hexadecimal MD5
  digest of a string (\<^verbatim>\<open>crypto.createHash('md5').update(str).digest('hex')\<close>) and
  \<^verbatim>\<open>path.join\<close> of two segments.
\<close>

record node =
  md5_hex :: "string \<Rightarrow> string"
  path_join :: "string \<Rightarrow> string \<Rightarrow> string"

text \<open>\<^verbatim>\<open>createHash(str)\<close>: \<^verbatim>\<open>.substring(0, 10)\<close> of the digest.\<close>

definition createHash :: "(string \<Rightarrow> string) \<Rightarrow> string \<Rightarrow> string" where
  "createHash md5 str = take 10 (md5 str)"

text \<open>The options of one call of \<^verbatim>\<open>renderAllMermaidDiagrams\<close> that the body reads.\<close>

record options =
  outputDir :: string
  themeConfigPath :: "string option"
  defaultLocale :: string
  outputFormat :: string
  mmdcArgs :: "string list"
  tempDir :: string
  themeName :: string
  outputSuffix :: string

record task =
  task_id :: string
  task_locale :: string
  filename :: string
  mermaidCode :: string
  outputPath :: string

text \<open>
  \<^verbatim>\<open>block.replace(/```mermaid|```/g, '').replace(metadataBlockRegex, '').trim()\<close>
\<close>

definition mermaidCode_of :: "string \<Rightarrow> string" where
  "mermaidCode_of block = trim (replace_metadataBlock (strip_fences block))"

text \<open>
  Lines 106 and 112 to 117 of renderer.js: the identity is the trimmed group of
  \<^verbatim>\<open>idRegex\<close> when the match exists and its group is not the empty string, and the
  hash of the diagram code otherwise.
\<close>

definition derive_id :: "(string \<Rightarrow> string) \<Rightarrow> string \<Rightarrow> string \<Rightarrow> string" where
  "derive_id md5 metadata code =
     (case idRegex metadata of
        Some grp \<Rightarrow> if grp \<noteq> [] then trim grp else createHash md5 code
      | None \<Rightarrow> createHash md5 code)"

text \<open>
  The body of the inner loop (lines 98 to 132) for one block of a file whose locale is
  \<open>loc\<close>: \<open>None\<close> when the block is skipped, the queued task otherwise.
\<close>

definition block_task :: "node \<Rightarrow> options \<Rightarrow> string \<Rightarrow> string \<Rightarrow> task option" where
  "block_task nd opts loc block =
     (let metadata = metadataContent block in
      if prerenderRegex metadata then None
      else
        let code = mermaidCode_of block;
            i = derive_id (md5_hex nd) metadata code;
            fname = i @ ''-'' @ loc @ outputSuffix opts @ ''.'' @ outputFormat opts
        in Some \<lparr>task_id = i, task_locale = loc, filename = fname, mermaidCode = code,
                  outputPath = path_join nd (outputDir opts) fname\<rparr>)"

text \<open>Lines 88 to 90: the locale of a file, from its path relative to the site.\<close>

definition file_locale :: "options \<Rightarrow> string \<Rightarrow> string" where
  "file_locale opts relativePath =
     (case localeRegex relativePath of Some l \<Rightarrow> l | None \<Rightarrow> defaultLocale opts)"

text \<open>The body of the outer loop (lines 81 to 133) for one file that could be read.\<close>

definition file_tasks :: "node \<Rightarrow> options \<Rightarrow> string \<Rightarrow> string \<Rightarrow> task list" where
  "file_tasks nd opts relativePath content =
     (if draftRegex content then []
      else List.map_filter (block_task nd opts (file_locale opts relativePath))
             (mermaidBlocks content))"

datatype error = ReadFileError string | WriteFileError string

text \<open>
  The outer loop over \<^verbatim>\<open>docFiles\<close>. A file is given by its path relative to the site
  directory and by what \<^verbatim>\<open>fs.readFile\<close> yields for it: its content, or \<open>None\<close> when
  reading throws, which ends the whole call.
\<close>

fun diagramTasks :: "node \<Rightarrow> options \<Rightarrow> (string \<times> string option) list \<Rightarrow> error + task list" where
  "diagramTasks nd opts [] = Inr []"
| "diagramTasks nd opts ((file, None) # docFiles) = Inl (ReadFileError file)"
| "diagramTasks nd opts ((file, Some content) # docFiles) =
     (case diagramTasks nd opts docFiles of
        Inl e \<Rightarrow> Inl e
      | Inr ts \<Rightarrow> Inr (file_tasks nd opts file content @ ts))"

text \<open>
  \<^verbatim>\<open>Array.from(new Map(diagramTasks.map((t) => [t.filename, t])).values())\<close>.
  A JavaScript \<^verbatim>\<open>Map\<close> keeps its keys in the order of their first insertion, and
  setting a key that is present replaces its value in place: this is
  \<^const>\<open>AList.update\<close> on an association list.
\<close>

definition new_Map :: "('k \<times> 'v) list \<Rightarrow> ('k \<times> 'v) list" where
  "new_Map entries = foldl (\<lambda>m (k, v). AList.update k v m) [] entries"

definition uniqueTasks :: "task list \<Rightarrow> task list" where
  "uniqueTasks ts = map snd (new_Map (map (\<lambda>t. (filename t, t)) ts))"

text \<open>\<open>plan\<close>: lines 78 to 141, the scan of the files followed by the deduplication.\<close>

definition plan :: "node \<Rightarrow> options \<Rightarrow> (string \<times> string option) list \<Rightarrow> error + task list" where
  "plan nd opts docFiles =
     (case diagramTasks nd opts docFiles of
        Inl e \<Rightarrow> Inl e
      | Inr ts \<Rightarrow> Inr (uniqueTasks ts))"

section \<open>Execution: the render loop\<close>

text \<open>
  The file system is the set of the paths that exist. What the operating system answers
  to the calls of one task is given by an environment: whether \<^verbatim>\<open>fs.writeFile\<close> of a
  path succeeds, whether the command passed to \<^verbatim>\<open>execAsync\<close> exits with success, and
  whether \<^verbatim>\<open>fs.unlink\<close> of a path succeeds. A renderer that exits with success has
  written its output file; one that fails has written none.
\<close>

record env =
  writeFile_ok :: "string \<Rightarrow> bool"
  exec_ok :: "string \<Rightarrow> bool"
  unlink_ok :: "string \<Rightarrow> bool"

text \<open>The console lines of the loop and of the summary, by the call that prints them.\<close>

datatype console =
    SkippingCached string
  | TempFileNotFound string
  | RenderingNew string
  | FinishedRendering string
  | FailedToRender string
  | FailedToDeleteTemp string
  | BuildFinished string
  | RenderedNew nat
  | SkippedCached nat

datatype event =
    Access string
  | WriteFile string string
  | Exec string
  | Unlink string
  | Console console

text \<open>
  The state that the callbacks share: the file system, the two counters declared on lines
  147 and 148, and the calls made so far.
\<close>

record run_state =
  files :: "string set"
  renderedCount :: nat
  skippedCount :: nat
  trace :: "event list"

definition join_space :: "string list \<Rightarrow> string" where
  "join_space xs = concat (case xs of [] \<Rightarrow> [] | y # ys \<Rightarrow> y # map (\<lambda>z. '' '' @ z) ys)"

definition dquote :: string where
  "dquote = [CHR 0x22]"

text \<open>Lines 59 and 64: the two fixed arguments of the command.\<close>

definition themeConfigFile :: "options \<Rightarrow> string" where
  "themeConfigFile opts =
     (case themeConfigPath opts of
        None \<Rightarrow> []
      | Some p \<Rightarrow> if p \<noteq> [] then ''-c '' @ dquote @ p @ dquote else [])"

definition themeNameConfig :: "options \<Rightarrow> string" where
  "themeNameConfig opts = ''-t '' @ themeName opts"

definition tempInputFile :: "node \<Rightarrow> options \<Rightarrow> task \<Rightarrow> string" where
  "tempInputFile nd opts t = path_join nd (tempDir opts) (''temp_'' @ filename t @ ''.mmd'')"

text \<open>Lines 168 to 170: the command line of the renderer.\<close>

definition command :: "node \<Rightarrow> options \<Rightarrow> task \<Rightarrow> string" where
  "command nd opts t =
     ''npx mmdc -i '' @ dquote @ tempInputFile nd opts t @ dquote @
     '' -o '' @ dquote @ outputPath t @ dquote @
     '' '' @ themeConfigFile opts @ '' '' @ themeNameConfig opts @
     '' '' @ join_space (mmdcArgs opts)"

text \<open>
  The callback of one task (lines 152 to 185). \<^verbatim>\<open>fs.writeFile\<close> stands outside every
  \<^verbatim>\<open>try\<close>: when it throws, the callback's promise is rejected and with it
  \<^verbatim>\<open>Promise.all\<close> and the whole call.
\<close>

definition run_task :: "node \<Rightarrow> env \<Rightarrow> options \<Rightarrow> run_state \<Rightarrow> task \<Rightarrow> error + run_state" where
  "run_task nd ev opts st t =
     (let tmp = tempInputFile nd opts t in
      if outputPath t \<in> files st then
        Inr (st\<lparr>skippedCount := skippedCount st + 1,
                 trace := trace st @ [Access (outputPath t), Console (SkippingCached (filename t))]\<rparr>)
      else if \<not> writeFile_ok ev tmp then Inl (WriteFileError tmp)
      else
        let st1 = st\<lparr>files := insert tmp (files st),
                       trace := trace st @ [Access (outputPath t), Console (TempFileNotFound tmp),
                                            WriteFile tmp (mermaidCode t)]\<rparr>;
            cmd = command nd opts t;
            st2 = (if exec_ok ev cmd then
                     st1\<lparr>files := insert (outputPath t) (files st1),
                          renderedCount := renderedCount st1 + 1,
                          trace := trace st1 @ [Console (RenderingNew (filename t)), Exec cmd,
                                                Console (FinishedRendering (filename t))]\<rparr>
                   else
                     st1\<lparr>trace := trace st1 @ [Console (RenderingNew (filename t)), Exec cmd,
                                                Console (FailedToRender (filename t))]\<rparr>);
            st3 = (if unlink_ok ev tmp then
                     st2\<lparr>files := files st2 - {tmp}, trace := trace st2 @ [Unlink tmp]\<rparr>
                   else
                     st2\<lparr>trace := trace st2 @ [Unlink tmp, Console (FailedToDeleteTemp tmp)]\<rparr>)
        in Inr st3)"

text \<open>
  The tasks in the order in which the pool admits them, one after the other, which is
  the schedule of a pool of size one.
\<close>

fun run_tasks :: "node \<Rightarrow> env \<Rightarrow> options \<Rightarrow> run_state \<Rightarrow> task list \<Rightarrow> error + run_state" where
  "run_tasks nd ev opts st [] = Inr st"
| "run_tasks nd ev opts st (t # ts) =
     (case run_task nd ev opts st t of
        Inl e \<Rightarrow> Inl e
      | Inr st' \<Rightarrow> run_tasks nd ev opts st' ts)"

text \<open>
  \<open>execute\<close>: lines 146 to 195, from the counters set to zero to the summary printed
  after \<^verbatim>\<open>Promise.all\<close>. The function has no \<^verbatim>\<open>return\<close> statement: the value is the
  state in which its body ends.
\<close>

definition execute :: "node \<Rightarrow> env \<Rightarrow> options \<Rightarrow> string set \<Rightarrow> task list \<Rightarrow> error + run_state" where
  "execute nd ev opts fs ts =
     (case run_tasks nd ev opts \<lparr>files = fs, renderedCount = 0, skippedCount = 0, trace = []\<rparr> ts of
        Inl e \<Rightarrow> Inl e
      | Inr st \<Rightarrow>
          Inr (st\<lparr>trace := trace st @
                 [Console (BuildFinished (themeName opts)),
                  Console (RenderedNew (renderedCount st)),
                  Console (SkippedCached (skippedCount st))]\<rparr>))"

definition renderAllMermaidDiagrams ::
  "node \<Rightarrow> env \<Rightarrow> options \<Rightarrow> string set \<Rightarrow> (string \<times> string option) list \<Rightarrow> error + run_state" where
  "renderAllMermaidDiagrams nd ev opts fs docFiles =
     (case plan nd opts docFiles of
        Inl e \<Rightarrow> Inl e
      | Inr ts \<Rightarrow> execute nd ev opts fs ts)"

text \<open>
  What a trace records: the files of the render failures reported on the console, the
  commands run, and the paths whose deletion was attempted.
\<close>

fun failedRenders :: "event list \<Rightarrow> string list" where
  "failedRenders [] = []"
| "failedRenders (Console (FailedToRender f) # es) = f # failedRenders es"
| "failedRenders (e # es) = failedRenders es"

fun invocations :: "event list \<Rightarrow> string list" where
  "invocations [] = []"
| "invocations (Exec cmd # es) = cmd # invocations es"
| "invocations (e # es) = invocations es"

fun deletions :: "event list \<Rightarrow> string list" where
  "deletions [] = []"
| "deletions (Unlink p # es) = p # deletions es"
| "deletions (e # es) = deletions es"

section \<open>The markup transformer of remark.js\<close>

text \<open>
  remark.js declares \<^verbatim>\<open>metadataBlockRegex\<close>, \<^verbatim>\<open>idRegex\<close> and \<^verbatim>\<open>prerenderRegex\<close> with
  the text they have in renderer.js, and its own copy of \<^verbatim>\<open>createHash\<close>.
\<close>

definition remark_createHash :: "(string \<Rightarrow> string) \<Rightarrow> string \<Rightarrow> string" where
  "remark_createHash md5 str = take 10 (md5 str)"

text \<open>The options that the transformer reads from the store.\<close>

record store =
  publicDir :: string
  store_defaultLocale :: string
  store_outputFormat :: string
  outputSuffixes_light :: string
  outputSuffixes_dark :: string
  renderDualThemes :: bool
  defaultThemeSuffix :: "string option"

text \<open>Line 54: the value of the code node without its header.\<close>

definition remark_mermaidCode :: "string \<Rightarrow> string" where
  "remark_mermaidCode v = trim (replace_metadataBlock v)"

text \<open>Lines 47 and 56 to 61.\<close>

definition remark_id :: "(string \<Rightarrow> string) \<Rightarrow> string \<Rightarrow> string" where
  "remark_id md5 v =
     (case idRegex (metadataContent v) of
        Some grp \<Rightarrow> if grp \<noteq> [] then trim grp else remark_createHash md5 (remark_mermaidCode v)
      | None \<Rightarrow> remark_createHash md5 (remark_mermaidCode v))"

text \<open>Lines 94 to 96: the locale, from the path of the file.\<close>

definition remark_locale :: "store \<Rightarrow> string \<Rightarrow> string" where
  "remark_locale sto filePath =
     (case localeRegex filePath of Some l \<Rightarrow> l | None \<Rightarrow> store_defaultLocale sto)"

text \<open>
  The template of lines 101, 123 and 147, for one suffix. A template prints the value
  \<^verbatim>\<open>null\<close> as the word null.
\<close>

definition remark_filename :: "(string \<Rightarrow> string) \<Rightarrow> store \<Rightarrow> string \<Rightarrow> string \<Rightarrow> string \<Rightarrow> string" where
  "remark_filename md5 sto filePath v sfx =
     remark_id md5 v @ ''-'' @ remark_locale sto filePath @ sfx @ ''.'' @ store_outputFormat sto"

text \<open>
  The file names of the images that the transformer emits for one code node in a
  production build: \<open>None\<close> when the node is left to the client-side renderer (line 42),
  the light and the dark image in dual mode, the default image otherwise.
\<close>

definition remark_filenames :: "(string \<Rightarrow> string) \<Rightarrow> store \<Rightarrow> string \<Rightarrow> string \<Rightarrow> string list option" where
  "remark_filenames md5 sto filePath v =
     (if prerenderRegex (metadataContent v) then None
      else if renderDualThemes sto then
        Some [remark_filename md5 sto filePath v (outputSuffixes_light sto),
              remark_filename md5 sto filePath v (outputSuffixes_dark sto)]
      else
        Some [remark_filename md5 sto filePath v
                (case defaultThemeSuffix sto of None \<Rightarrow> ''null'' | Some x \<Rightarrow> x)])"

text \<open>
  Lines 98 to 110 seen as one function of the raw block: the metadata of its header and
  the diagram code that is left.
\<close>

definition extractMetadata :: "string \<Rightarrow> string \<times> string" where
  "extractMetadata block = (metadataContent block, mermaidCode_of block)"

section \<open>Sample inputs\<close>

text \<open>
  A node whose digest is a stand-in (the same 32 digits for every string) and whose
  \<^verbatim>\<open>path.join\<close> puts a slash between its arguments, and the options of a light pass.
\<close>

definition sample_node :: node where
  "sample_node =
     \<lparr>md5_hex = (\<lambda>s. ''0123456789abcdef0123456789abcdef''),
      path_join = (\<lambda>d f. d @ ''/'' @ f)\<rparr>"

definition sample_options :: options where
  "sample_options =
     \<lparr>outputDir = ''static/img/diagrams'', themeConfigPath = None, defaultLocale = ''en'',
      outputFormat = ''svg'', mmdcArgs = [''-b'', ''transparent''], tempDir = ''tmp'',
      themeName = ''neutral'', outputSuffix = ''-light''\<rparr>"

text \<open>
  Two tasks of the light pass, and an environment in which every write and every deletion
  succeeds and the renderer fails on the second task only.
\<close>

definition task_a :: task where
  "task_a = \<lparr>task_id = ''a'', task_locale = ''en'', filename = ''a-en-light.svg'',
              mermaidCode = ''graph TD'', outputPath = ''static/img/diagrams/a-en-light.svg''\<rparr>"

definition task_b :: task where
  "task_b = \<lparr>task_id = ''b'', task_locale = ''en'', filename = ''b-en-light.svg'',
              mermaidCode = ''graph LR'', outputPath = ''static/img/diagrams/b-en-light.svg''\<rparr>"

definition sample_env :: env where
  "sample_env =
     \<lparr>writeFile_ok = (\<lambda>p. True),
      exec_ok = (\<lambda>cmd. cmd \<noteq> command sample_node sample_options task_b),
      unlink_ok = (\<lambda>p. True)\<rparr>"

text \<open>The store as index.js fills it for a site with both themes.\<close>

definition sample_store :: store where
  "sample_store =
     \<lparr>publicDir = ''/img/diagrams'', store_defaultLocale = ''en'', store_outputFormat = ''svg'',
      outputSuffixes_light = ''-light'', outputSuffixes_dark = ''-dark'',
      renderDualThemes = True, defaultThemeSuffix = None\<rparr>"

text \<open>
  Content files and code node values are written line by line: \<open>join_lines\<close> puts a
  line feed between the lines.
\<close>

definition join_lines :: "string list \<Rightarrow> string" where
  "join_lines ls =
     concat (case ls of [] \<Rightarrow> [] | l # rest \<Rightarrow> l # map (\<lambda>z. CHR 0x0A # z) rest)"

text \<open>
  A diagram whose header has a caption and no id, and a diagram whose header has an id
  key without a value followed by an alt text.
\<close>

definition doc_pyramid :: string where
  "doc_pyramid = join_lines
     [''```mermaid'', ''---'', ''caption: Pyramid: top layer'', ''---'',
      ''graph TD'', ''  Top --> Base'', ''```'']"

definition doc_blank_id :: string where
  "doc_blank_id = join_lines
     [''```mermaid'', ''---'', ''id:'', ''alt: Flow'', ''---'',
      ''graph TD'', ''  Top --> Base'', ''```'']"

text \<open>
  One diagram in the default locale and in German: the body is the same, the caption of
  the header is translated, and neither header has an id.
\<close>

definition doc_grid_en :: string where
  "doc_grid_en = join_lines
     [''```mermaid'', ''---'', ''caption: Grid: layout'', ''---'',
      ''graph TD'', ''  Cell --> Row'', ''```'']"

definition doc_grid_de :: string where
  "doc_grid_de = join_lines
     [''```mermaid'', ''---'', ''caption: Grid: Aufbau'', ''---'',
      ''graph TD'', ''  Cell --> Row'', ''```'']"

text \<open>
  A content file with one diagram, one of whose nodes is labelled \<^verbatim>\<open>draft: true\<close>, and
  the value of its code node: the lines between the fences.
\<close>

definition value_draft_label :: string where
  "value_draft_label = join_lines
     [''---'', ''id: flow'', ''---'', ''graph TD'', ''  A[draft: true] --> B'']"

definition doc_draft_label :: string where
  "doc_draft_label = join_lines
     [''# Publishing'', [], ''```mermaid'', ''---'', ''id: flow'', ''---'', ''graph TD'',
      ''  A[draft: true] --> B'', ''```'']"

text \<open>
  A content file whose diagram has an identity with a slash, and an environment in which
  the temporary file of its task cannot be written, its directory being absent.
\<close>

definition doc_slash_id :: string where
  "doc_slash_id = join_lines
     [''```mermaid'', ''---'', ''id: a/b'', ''---'', ''graph TD'', ''  A --> B'', ''```'']"

definition env_no_directory :: env where
  "env_no_directory =
     \<lparr>writeFile_ok = (\<lambda>p. p \<noteq> ''tmp/temp_a/b-en-light.svg.mmd''),
      exec_ok = (\<lambda>cmd. True),
      unlink_ok = (\<lambda>p. True)\<rparr>"

text \<open>
  A diagram block with a header at its top and two links drawn with three dashes, the
  same block without the header, and the diagram alone.
\<close>

definition block_links :: string where
  "block_links = join_lines
     [''```mermaid'', ''---'', ''id: a'', ''---'', ''graph LR'', ''  A --- B'', ''  C --- D'', ''```'']"

definition block_links_plain :: string where
  "block_links_plain = join_lines
     [''```mermaid'', ''graph LR'', ''  A --- B'', ''  C --- D'', ''```'']"

definition diagram_links :: string where
  "diagram_links = join_lines [''graph LR'', ''  A --- B'', ''  C --- D'']"

section \<open>Facts about the string functions\<close>




section \<open>Facts about planning\<close>

lemma block_task_Some:
  "block_task nd opts loc block = Some t \<longleftrightarrow>
     \<not> prerenderRegex (metadataContent block) \<and>
     t = \<lparr>task_id = derive_id (md5_hex nd) (metadataContent block) (mermaidCode_of block),
          task_locale = loc,
          filename = derive_id (md5_hex nd) (metadataContent block) (mermaidCode_of block) @
                     ''-'' @ loc @ outputSuffix opts @ ''.'' @ outputFormat opts,
          mermaidCode = mermaidCode_of block,
          outputPath = path_join nd (outputDir opts)
            (derive_id (md5_hex nd) (metadataContent block) (mermaidCode_of block) @
             ''-'' @ loc @ outputSuffix opts @ ''.'' @ outputFormat opts)\<rparr>"
  by (auto simp: block_task_def Let_def)

lemma map_filter_Cons:
  "List.map_filter f (x # xs) =
     (case f x of None \<Rightarrow> List.map_filter f xs | Some y \<Rightarrow> y # List.map_filter f xs)"
  by (simp add: List.map_filter_def split: option.splits)

lemma set_map_filter: "t \<in> set (List.map_filter f xs) \<longleftrightarrow> (\<exists>x\<in>set xs. f x = Some t)"
  by (induction xs) (auto simp: map_filter_Cons List.map_filter_def split: option.splits)

lemma file_tasks_filename:
  "t \<in> set (file_tasks nd opts path content) \<Longrightarrow>
     task_locale t = file_locale opts path \<and>
     filename t = task_id t @ ''-'' @ task_locale t @ outputSuffix opts @ ''.'' @ outputFormat opts"
  by (auto simp: file_tasks_def set_map_filter block_task_Some split: if_splits)

lemma diagramTasks_filename:
  "diagramTasks nd opts docFiles = Inr ts \<Longrightarrow> t \<in> set ts \<Longrightarrow>
     filename t = task_id t @ ''-'' @ task_locale t @ outputSuffix opts @ ''.'' @ outputFormat opts"
proof (induction nd opts docFiles arbitrary: ts rule: diagramTasks.induct)
  case (1 nd opts)
  then show ?case by simp
next
  case (2 nd opts path docFiles)
  then show ?case by simp
next
  case (3 nd opts path content docFiles)
  then show ?case using file_tasks_filename [of t nd opts path content]
    by (auto split: sum.splits)
qed

section \<open>Facts about the map of tasks\<close>

lemma remdups_first_member:
  "k \<in> set A \<Longrightarrow> rev (remdups (rev (A @ k # X))) = rev (remdups (rev (A @ X)))"
proof -
  assume k: "k \<in> set A"
  then have "remdups (k # rev A) = remdups (rev A)" by simp
  moreover from k have "set (k # rev A) = set (rev A)" by auto
  ultimately have "remdups (rev X @ k # rev A) = remdups (rev X @ rev A)"
    using remdups_append2 [of "rev X" "k # rev A"] remdups_append2 [of "rev X" "rev A"]
    by (metis remdups_append remdups_remdups)
  then show ?thesis by simp
qed

lemma foldl_update_keys:
  "distinct (map fst acc) \<Longrightarrow>
   map fst (foldl (\<lambda>m (k, v). AList.update k v m) acc xs) =
     rev (remdups (rev (map fst acc @ map fst xs)))"
proof (induction xs arbitrary: acc)
  case Nil
  then show ?case by (simp add: distinct_remdups_id)
next
  case (Cons x xs)
  obtain k v where x: "x = (k, v)" by (cases x)
  have d: "distinct (map fst (AList.update k v acc))" using Cons.prems by (rule distinct_update)
  show ?case
  proof (cases "k \<in> set (map fst acc)")
    case True
    then have "map fst (AList.update k v acc) = map fst acc" by (simp add: update_keys)
    with Cons.IH [OF d] x have "map fst (foldl (\<lambda>m (k, v). AList.update k v m) acc (x # xs)) =
        rev (remdups (rev (map fst acc @ map fst xs)))" by simp
    also have "\<dots> = rev (remdups (rev (map fst acc @ k # map fst xs)))"
      using True by (rule remdups_first_member [symmetric])
    finally show ?thesis using x by simp
  next
    case False
    then have "map fst (AList.update k v acc) = map fst acc @ [k]" by (simp add: update_keys)
    with Cons.IH [OF d] x show ?thesis by simp
  qed
qed

lemma foldl_update_map_of:
  "map_of (foldl (\<lambda>m (k, v). AList.update k v m) acc xs) = map_of (rev xs @ acc)"
proof (induction xs arbitrary: acc)
  case Nil
  show ?case by simp
next
  case (Cons x xs)
  obtain k v where x: "x = (k, v)" by (cases x)
  have "map_of (rev xs @ AList.update k v acc) = map_of (rev xs @ [(k, v)] @ acc)"
    by (simp add: update_conv' map_add_def fun_eq_iff split: option.splits)
  with Cons.IH [of "AList.update k v acc"] x show ?case by simp
qed

lemma new_Map_keys: "map fst (new_Map xs) = rev (remdups (rev (map fst xs)))"
  using foldl_update_keys [of "[]" xs] by (simp add: new_Map_def)

lemma new_Map_map_of: "map_of (new_Map xs) = map_of (rev xs)"
  using foldl_update_map_of [of "[]" xs] by (simp add: new_Map_def)

lemma new_Map_distinct: "distinct (map fst (new_Map xs))"
  by (simp add: new_Map_keys)

lemma map_of_keyed: "map_of (map (\<lambda>t. (f t, t)) l) k = List.find (\<lambda>u. f u = k) l"
  by (induction l) auto

lemma new_Map_keyed:
  assumes "(k, t) \<in> set (new_Map (map (\<lambda>t. (f t, t)) ts))"
  shows "k = f t \<and> List.find (\<lambda>u. f u = f t) (rev ts) = Some t"
proof -
  from assms have "map_of (new_Map (map (\<lambda>t. (f t, t)) ts)) k = Some t"
    by (simp add: new_Map_distinct)
  then have "map_of (map (\<lambda>t. (f t, t)) (rev ts)) k = Some t"
    by (simp add: new_Map_map_of rev_map)
  then have fd: "List.find (\<lambda>u. f u = k) (rev ts) = Some t" by (simp add: map_of_keyed)
  then have "f t = k" by (auto simp: find_Some_iff)
  with fd show ?thesis by simp
qed

lemma uniqueTasks_filenames:
  "map filename (uniqueTasks ts) = rev (remdups (rev (map filename ts)))"
proof -
  have "\<forall>p\<in>set (new_Map (map (\<lambda>t. (filename t, t)) ts)). filename (snd p) = fst p"
    using new_Map_keyed [of _ _ filename ts] by force 
  then have "map filename (uniqueTasks ts) = map fst (new_Map (map (\<lambda>t. (filename t, t)) ts))"
    by (simp add: uniqueTasks_def)
  then show ?thesis by (simp add: new_Map_keys comp_def)
qed

lemma uniqueTasks_last:
  assumes "t \<in> set (uniqueTasks ts)"
  shows "List.find (\<lambda>u. filename u = filename t) (rev ts) = Some t"
proof -
  from assms obtain k where "(k, t) \<in> set (new_Map (map (\<lambda>t. (filename t, t)) ts))"
    by (auto simp: uniqueTasks_def)
  then show ?thesis by (rule new_Map_keyed [THEN conjunct2])
qed

lemma uniqueTasks_length: "length (uniqueTasks ts) = card (filename ` set ts)"
proof -
  have "length (uniqueTasks ts) = length (map filename (uniqueTasks ts))" by simp
  also have "\<dots> = length (remdups (rev (map filename ts)))" by (simp only: uniqueTasks_filenames length_rev)
  also have "\<dots> = card (set (rev (map filename ts)))" by (rule length_remdups_card_conv)
  finally show ?thesis by simp
qed

section \<open>Facts about the render loop\<close>

lemma failedRenders_append: "failedRenders (xs @ ys) = failedRenders xs @ failedRenders ys"
  by (induction xs rule: failedRenders.induct) simp_all

lemma invocations_append: "invocations (xs @ ys) = invocations xs @ invocations ys"
  by (induction xs rule: invocations.induct) simp_all

lemma deletions_append: "deletions (xs @ ys) = deletions xs @ deletions ys"
  by (induction xs rule: deletions.induct) simp_all

lemma run_task_cached:
  "outputPath t \<in> files st \<Longrightarrow>
   run_task nd ev opts st t =
     Inr (st\<lparr>skippedCount := skippedCount st + 1,
              trace := trace st @ [Access (outputPath t), Console (SkippingCached (filename t))]\<rparr>)"
  by (simp add: run_task_def)

lemma run_task_rendered:
  assumes "outputPath t \<notin> files st" "writeFile_ok ev (tempInputFile nd opts t)"
  shows "\<exists>st'. run_task nd ev opts st t = Inr st' \<and>
     trace st' = trace st @
       [Access (outputPath t), Console (TempFileNotFound (tempInputFile nd opts t)),
        WriteFile (tempInputFile nd opts t) (mermaidCode t),
        Console (RenderingNew (filename t)), Exec (command nd opts t),
        Console ((if exec_ok ev (command nd opts t) then FinishedRendering else FailedToRender)
                   (filename t)),
        Unlink (tempInputFile nd opts t)] @
       (if unlink_ok ev (tempInputFile nd opts t) then []
        else [Console (FailedToDeleteTemp (tempInputFile nd opts t))]) \<and>
     renderedCount st' = renderedCount st + (if exec_ok ev (command nd opts t) then 1 else 0) \<and>
     skippedCount st' = skippedCount st \<and>
     files st' \<subseteq> insert (tempInputFile nd opts t) (insert (outputPath t) (files st))"
  using assms by (auto simp: run_task_def Let_def)

lemma run_tasks_all_cached:
  "\<forall>t\<in>set ts. outputPath t \<in> files st \<Longrightarrow>
   run_tasks nd ev opts st ts =
     Inr (st\<lparr>skippedCount := skippedCount st + length ts,
              trace := trace st @
                concat (map (\<lambda>t. [Access (outputPath t), Console (SkippingCached (filename t))]) ts)\<rparr>)"
proof (induction ts arbitrary: st)
  case Nil
  show ?case by simp
next
  case (Cons t ts)
  let ?st = "st\<lparr>skippedCount := skippedCount st + 1,
              trace := trace st @ [Access (outputPath t), Console (SkippingCached (filename t))]\<rparr>"
  from Cons.prems have "run_task nd ev opts st t = Inr ?st" by (simp add: run_task_cached)
  moreover from Cons.prems have "\<forall>u\<in>set ts. outputPath u \<in> files ?st" by simp
  then have "run_tasks nd ev opts ?st ts =
     Inr (?st\<lparr>skippedCount := skippedCount ?st + length ts,
              trace := trace ?st @
                concat (map (\<lambda>t. [Access (outputPath t), Console (SkippingCached (filename t))]) ts)\<rparr>)"
    by (rule Cons.IH)
  ultimately show ?case by simp
qed

lemma run_tasks_all_invoked:
  assumes "\<forall>t\<in>set ts. outputPath t \<notin> files st"
    and "distinct (map outputPath ts)"
    and "\<forall>t\<in>set ts. \<forall>u\<in>set ts. tempInputFile nd opts t \<noteq> outputPath u"
    and "\<forall>t\<in>set ts. writeFile_ok ev (tempInputFile nd opts t)"
  shows "\<exists>st'. run_tasks nd ev opts st ts = Inr st' \<and>
     renderedCount st' = renderedCount st + length (filter (\<lambda>t. exec_ok ev (command nd opts t)) ts) \<and>
     skippedCount st' = skippedCount st \<and>
     invocations (trace st') = invocations (trace st) @ map (command nd opts) ts \<and>
     deletions (trace st') = deletions (trace st) @ map (tempInputFile nd opts) ts \<and>
     failedRenders (trace st') = failedRenders (trace st) @
       map filename (filter (\<lambda>t. \<not> exec_ok ev (command nd opts t)) ts)"
  using assms
proof (induction ts arbitrary: st)
  case Nil
  show ?case by simp
next
  case (Cons t ts)
  from Cons.prems obtain st1 where
    r: "run_task nd ev opts st t = Inr st1" and
    tr: "trace st1 = trace st @
       [Access (outputPath t), Console (TempFileNotFound (tempInputFile nd opts t)),
        WriteFile (tempInputFile nd opts t) (mermaidCode t),
        Console (RenderingNew (filename t)), Exec (command nd opts t),
        Console ((if exec_ok ev (command nd opts t) then FinishedRendering else FailedToRender)
                   (filename t)),
        Unlink (tempInputFile nd opts t)] @
       (if unlink_ok ev (tempInputFile nd opts t) then []
        else [Console (FailedToDeleteTemp (tempInputFile nd opts t))])" and
    rc: "renderedCount st1 = renderedCount st + (if exec_ok ev (command nd opts t) then 1 else 0)" and
    sc: "skippedCount st1 = skippedCount st" and
    fl: "files st1 \<subseteq> insert (tempInputFile nd opts t) (insert (outputPath t) (files st))"
    using run_task_rendered [of t st ev nd opts] by auto
  have p1: "\<forall>u\<in>set ts. outputPath u \<notin> files st1"
  proof
    fix u assume u: "u \<in> set ts"
    from u Cons.prems(1) have a: "outputPath u \<notin> files st" by simp
    from Cons.prems(2) have "outputPath t \<notin> outputPath ` set ts" by simp
    with u have b: "outputPath u \<noteq> outputPath t" by (metis imageI)
    from u Cons.prems(3) have c: "tempInputFile nd opts t \<noteq> outputPath u" by simp
    note a b c [symmetric]
    with fl show "outputPath u \<notin> files st1" by auto
  qed
  from Cons.prems have p2: "distinct (map outputPath ts)"
    and p3: "\<forall>t\<in>set ts. \<forall>u\<in>set ts. tempInputFile nd opts t \<noteq> outputPath u"
    and p4: "\<forall>t\<in>set ts. writeFile_ok ev (tempInputFile nd opts t)"
    by simp_all
  from Cons.IH [OF p1 p2 p3 p4] obtain st' where
    rs: "run_tasks nd ev opts st1 ts = Inr st'" and
    c: "renderedCount st' = renderedCount st1 + length (filter (\<lambda>t. exec_ok ev (command nd opts t)) ts)"
       "skippedCount st' = skippedCount st1"
       "invocations (trace st') = invocations (trace st1) @ map (command nd opts) ts"
       "deletions (trace st') = deletions (trace st1) @ map (tempInputFile nd opts) ts"
       "failedRenders (trace st') = failedRenders (trace st1) @
          map filename (filter (\<lambda>t. \<not> exec_ok ev (command nd opts t)) ts)"
    by blast
  from r rs have "run_tasks nd ev opts st (t # ts) = Inr st'" by simp
  moreover from c rc have "renderedCount st' =
      renderedCount st + length (filter (\<lambda>t. exec_ok ev (command nd opts t)) (t # ts))"
    by simp
  moreover from c sc have "skippedCount st' = skippedCount st" by simp
  moreover from c tr have "invocations (trace st') =
      invocations (trace st) @ map (command nd opts) (t # ts)"
    by (simp add: invocations_append)
  moreover from c tr have "deletions (trace st') =
      deletions (trace st) @ map (tempInputFile nd opts) (t # ts)"
    by (simp add: deletions_append)
  moreover from c tr have "failedRenders (trace st') = failedRenders (trace st) @
       map filename (filter (\<lambda>t. \<not> exec_ok ev (command nd opts t)) (t # ts))"
    by (simp add: failedRenders_append)
  ultimately show ?case by blast
qed

lemma filter_complement_length:
  "length (filter P xs) + length (filter (\<lambda>x. \<not> P x) xs) = length xs"
  by (induction xs) auto

section \<open>Identity derivation\<close>

text \<open>
  Claim C3 does not hold on the code: a header that gives no identity does not always
  lead to the hash. The identity pattern is searched anywhere in the header and its white
  space runs over line ends. In a header whose only line is the caption
  \<^verbatim>\<open>Pyramid: top layer\<close> it matches the letters \<^verbatim>\<open>id:\<close> at the end of the word
  Pyramid, and the derived identity is \<^verbatim>\<open>top layer\<close>; in a header whose id key has no
  value and is followed by an alt text, the derived identity is the line of the alt text.
  This is so for every digest function and every diagram code: the hash is not used.
\<close>

theorem derive_id_without_explicit_id:
  "metadataContent doc_pyramid = join_lines [[], ''caption: Pyramid: top layer'', []] \<and>
   idRegex (metadataContent doc_pyramid) = Some ''top layer'' \<and>
   derive_id md5 (metadataContent doc_pyramid) code = ''top layer'' \<and>
   map_option task_id (block_task nd opts loc doc_pyramid) = Some ''top layer'' \<and>
   metadataContent doc_blank_id = join_lines [[], ''id:'', ''alt: Flow'', []] \<and>
   idRegex (metadataContent doc_blank_id) = Some ''alt: Flow'' \<and>
   derive_id md5 (metadataContent doc_blank_id) code = ''alt: Flow'' \<and>
   map_option task_id (block_task nd opts loc doc_blank_id) = Some ''alt: Flow''"
  by code_simp

section \<open>Metadata extraction\<close>

text \<open>
  Claim C4 does not hold on the code: extraction is not idempotent. The header pattern is
  searched anywhere in the block, so the first two dash runs are taken as a header also
  when they are links of the diagram. From a block with a header at its top and two such
  links, the first extraction yields the header and the diagram; a second extraction from
  that diagram yields the text between the two links as metadata and a diagram without
  it. The same block without header loses that text at its first extraction.
\<close>

theorem extract_twice_strips_links:
  "extractMetadata block_links = (join_lines [[], ''id: a'', []], diagram_links) \<and>
   extractMetadata diagram_links =
     (join_lines ['' B'', ''  C ''], join_lines [''graph LR'', ''  A  D'']) \<and>
   extractMetadata block_links_plain =
     (join_lines ['' B'', ''  C ''], join_lines [''graph LR'', ''  A  D''])"
  by code_simp

section \<open>The skip flag\<close>




section \<open>Deduplication\<close>

text \<open>
  Claim C2, as stated, fails. The file name joins identity and locale with a dash, so two
  blocks with different identities and different locales can have the same file name:
  identity \<^verbatim>\<open>a-pt\<close> under locale \<^verbatim>\<open>BR\<close> and identity \<^verbatim>\<open>a\<close> under locale
  \<^verbatim>\<open>pt-BR\<close>. The scan queues two tasks with two distinct triples, and one task is left.
\<close>

theorem plan_length_counterexample:
  "diagramTasks sample_node sample_options
     [(''i18n/BR/docs/a.md'', Some ''```mermaid --- id: a-pt --- graph TD ```''),
      (''i18n/pt-BR/docs/a.md'', Some ''```mermaid --- id: a --- graph LR ```'')] =
   Inr [\<lparr>task_id = ''a-pt'', task_locale = ''BR'', filename = ''a-pt-BR-light.svg'',
          mermaidCode = ''graph TD'', outputPath = ''static/img/diagrams/a-pt-BR-light.svg''\<rparr>,
        \<lparr>task_id = ''a'', task_locale = ''pt-BR'', filename = ''a-pt-BR-light.svg'',
          mermaidCode = ''graph LR'', outputPath = ''static/img/diagrams/a-pt-BR-light.svg''\<rparr>] \<and>
   plan sample_node sample_options
     [(''i18n/BR/docs/a.md'', Some ''```mermaid --- id: a-pt --- graph TD ```''),
      (''i18n/pt-BR/docs/a.md'', Some ''```mermaid --- id: a --- graph LR ```'')] =
   Inr [\<lparr>task_id = ''a'', task_locale = ''pt-BR'', filename = ''a-pt-BR-light.svg'',
          mermaidCode = ''graph LR'', outputPath = ''static/img/diagrams/a-pt-BR-light.svg''\<rparr>]"
  by code_simp

text \<open>
  Claim C2, amended. Let \<open>ts\<close> be the tasks that the scan queues, one for each block that
  is not skipped. The plan holds at most one task for each file name; its file names are
  those of \<open>ts\<close> in the order of their first occurrence; each of its tasks is the last
  task of \<open>ts\<close> with that file name; its length is at most the number of distinct triples
  of identity, locale and theme, and equal to it when no two tasks with different
  identity or locale have the same file name.
\<close>

theorem plan_deduplicates:
  assumes "diagramTasks nd opts docFiles = Inr ts"
  shows "\<exists>us. plan nd opts docFiles = Inr us \<and>
     distinct (map filename us) \<and>
     map filename us = rev (remdups (rev (map filename ts))) \<and>
     (\<forall>t\<in>set us. List.find (\<lambda>u. filename u = filename t) (rev ts) = Some t) \<and>
     length us \<le> card ((\<lambda>t. (task_id t, task_locale t, themeName opts)) ` set ts) \<and>
     ((\<forall>t\<in>set ts. \<forall>u\<in>set ts. filename t = filename u \<longrightarrow>
          task_id t = task_id u \<and> task_locale t = task_locale u) \<longrightarrow>
      length us = card ((\<lambda>t. (task_id t, task_locale t, themeName opts)) ` set ts))"
proof -
  let ?tr = "\<lambda>t. (task_id t, task_locale t, themeName opts)"
  let ?g = "\<lambda>(i, l, th). i @ ''-'' @ l @ outputSuffix opts @ ''.'' @ outputFormat opts"
  let ?us = "uniqueTasks ts"
  have p: "plan nd opts docFiles = Inr ?us" using assms by (simp add: plan_def)
  have names: "map filename ?us = rev (remdups (rev (map filename ts)))"
    by (rule uniqueTasks_filenames)
  then have d: "distinct (map filename ?us)" by simp
  have l: "\<forall>t\<in>set ?us. List.find (\<lambda>u. filename u = filename t) (rev ts) = Some t"
    by (simp add: uniqueTasks_last)
  have fg: "filename t = ?g (?tr t)" if "t \<in> set ts" for t
    using diagramTasks_filename [OF assms that] by simp
  then have img: "filename ` set ts = ?g ` (?tr ` set ts)" by (force simp: image_iff)
  have len: "length ?us = card (?g ` (?tr ` set ts))"
    by (simp only: uniqueTasks_length img)
  have le: "length ?us \<le> card (?tr ` set ts)"
    unfolding len by (rule card_image_le) simp
  have eq: "length ?us = card (?tr ` set ts)"
    if h: "\<forall>t\<in>set ts. \<forall>u\<in>set ts. filename t = filename u \<longrightarrow>
          task_id t = task_id u \<and> task_locale t = task_locale u"
  proof -
    have "inj_on ?g (?tr ` set ts)"
    proof (rule inj_onI)
      fix x y assume x: "x \<in> ?tr ` set ts" and y: "y \<in> ?tr ` set ts" and e: "?g x = ?g y"
      from x obtain t where t: "t \<in> set ts" "x = ?tr t" by blast
      from y obtain u where u: "u \<in> set ts" "y = ?tr u" by blast
      from e t u have "filename t = filename u" by (simp only: fg)
      with h t u have "task_id t = task_id u \<and> task_locale t = task_locale u" by blast
      with t u show "x = y" by (simp only:)
    qed
    then show ?thesis unfolding len by (rule card_image)
  qed
  show ?thesis
    by (intro exI [of _ ?us] conjI impI; (fact p names d l le | (rule eq, assumption)))
qed

theorem plan_deduplicates_witness:
  "diagramTasks sample_node sample_options
     [(''docs/a.md'', Some ''```mermaid --- id: a --- graph TD ``` ```mermaid --- id: b --- graph TD ```''),
      (''docs/b.md'', Some ''```mermaid --- id: a --- graph LR ```'')] =
   Inr [\<lparr>task_id = ''a'', task_locale = ''en'', filename = ''a-en-light.svg'',
          mermaidCode = ''graph TD'', outputPath = ''static/img/diagrams/a-en-light.svg''\<rparr>,
        \<lparr>task_id = ''b'', task_locale = ''en'', filename = ''b-en-light.svg'',
          mermaidCode = ''graph TD'', outputPath = ''static/img/diagrams/b-en-light.svg''\<rparr>,
        \<lparr>task_id = ''a'', task_locale = ''en'', filename = ''a-en-light.svg'',
          mermaidCode = ''graph LR'', outputPath = ''static/img/diagrams/a-en-light.svg''\<rparr>] \<and>
   (\<exists>us. plan sample_node sample_options
     [(''docs/a.md'', Some ''```mermaid --- id: a --- graph TD ``` ```mermaid --- id: b --- graph TD ```''),
      (''docs/b.md'', Some ''```mermaid --- id: a --- graph LR ```'')] = Inr us \<and>
      map filename us = [''a-en-light.svg'', ''b-en-light.svg''] \<and>
      map mermaidCode us = [''graph LR'', ''graph TD''] \<and>
      length us = 2 \<and>
      length us = card ((\<lambda>t. (task_id t, task_locale t, themeName sample_options)) `
        set [\<lparr>task_id = ''a'', task_locale = ''en'', filename = ''a-en-light.svg'',
          mermaidCode = ''graph TD'', outputPath = ''static/img/diagrams/a-en-light.svg''\<rparr>,
        \<lparr>task_id = ''b'', task_locale = ''en'', filename = ''b-en-light.svg'',
          mermaidCode = ''graph TD'', outputPath = ''static/img/diagrams/b-en-light.svg''\<rparr>,
        \<lparr>task_id = ''a'', task_locale = ''en'', filename = ''a-en-light.svg'',
          mermaidCode = ''graph LR'', outputPath = ''static/img/diagrams/a-en-light.svg''\<rparr>]))"
proof -
  let ?files = "[(''docs/a.md'', Some ''```mermaid --- id: a --- graph TD ``` ```mermaid --- id: b --- graph TD ```''),
      (''docs/b.md'', Some ''```mermaid --- id: a --- graph LR ```'')]"
  let ?ts = "[\<lparr>task_id = ''a'', task_locale = ''en'', filename = ''a-en-light.svg'',
          mermaidCode = ''graph TD'', outputPath = ''static/img/diagrams/a-en-light.svg''\<rparr>,
        \<lparr>task_id = ''b'', task_locale = ''en'', filename = ''b-en-light.svg'',
          mermaidCode = ''graph TD'', outputPath = ''static/img/diagrams/b-en-light.svg''\<rparr>,
        \<lparr>task_id = ''a'', task_locale = ''en'', filename = ''a-en-light.svg'',
          mermaidCode = ''graph LR'', outputPath = ''static/img/diagrams/a-en-light.svg''\<rparr>]"
  have h: "diagramTasks sample_node sample_options ?files = Inr ?ts" by code_simp
  have e: "plan sample_node sample_options ?files =
    Inr [\<lparr>task_id = ''a'', task_locale = ''en'', filename = ''a-en-light.svg'',
          mermaidCode = ''graph LR'', outputPath = ''static/img/diagrams/a-en-light.svg''\<rparr>,
        \<lparr>task_id = ''b'', task_locale = ''en'', filename = ''b-en-light.svg'',
          mermaidCode = ''graph TD'', outputPath = ''static/img/diagrams/b-en-light.svg''\<rparr>]"
    by code_simp
  have c: "\<forall>t\<in>set ?ts. \<forall>u\<in>set ?ts. filename t = filename u \<longrightarrow>
          task_id t = task_id u \<and> task_locale t = task_locale u"
    by simp
  from plan_deduplicates [OF h] obtain us where
    us: "plan sample_node sample_options ?files = Inr us" and
    i: "(\<forall>t\<in>set ?ts. \<forall>u\<in>set ?ts. filename t = filename u \<longrightarrow>
          task_id t = task_id u \<and> task_locale t = task_locale u) \<longrightarrow>
      length us = card ((\<lambda>t. (task_id t, task_locale t, themeName sample_options)) ` set ?ts)"
    by (elim exE conjE)
  from i c have k: "length us =
      card ((\<lambda>t. (task_id t, task_locale t, themeName sample_options)) ` set ?ts)"
    by (rule mp)
  from us e have u: "us = [\<lparr>task_id = ''a'', task_locale = ''en'', filename = ''a-en-light.svg'',
          mermaidCode = ''graph LR'', outputPath = ''static/img/diagrams/a-en-light.svg''\<rparr>,
        \<lparr>task_id = ''b'', task_locale = ''en'', filename = ''b-en-light.svg'',
          mermaidCode = ''graph TD'', outputPath = ''static/img/diagrams/b-en-light.svg''\<rparr>]"
    by (simp only: sum.inject)
  have "map filename us = [''a-en-light.svg'', ''b-en-light.svg''] \<and>
      map mermaidCode us = [''graph LR'', ''graph TD''] \<and> length us = 2"
    unfolding u by simp
  with us k have "\<exists>us. plan sample_node sample_options ?files = Inr us \<and>
      map filename us = [''a-en-light.svg'', ''b-en-light.svg''] \<and>
      map mermaidCode us = [''graph LR'', ''graph TD''] \<and> length us = 2 \<and>
      length us = card ((\<lambda>t. (task_id t, task_locale t, themeName sample_options)) ` set ?ts)"
    by (intro exI [of _ us] conjI) (elim conjE, assumption)+
  with h show ?thesis by (rule conjI)
qed

section \<open>Identity and locale\<close>

text \<open>
  Claim C8 does not hold on the code: the same diagram body without explicit identity can
  get different identities in different locales. The body is the same in the English and
  in the German file and neither header has an id, but the identity pattern matches the
  letters \<^verbatim>\<open>id:\<close> at the end of the word Grid in the caption, which is translated: the
  identities are \<^verbatim>\<open>layout\<close> and \<^verbatim>\<open>Aufbau\<close>, for every digest function, and the file
  names do not share a hash.
\<close>

theorem identity_differs_across_locales:
  "derive_id md5 (metadataContent doc_grid_en) code = ''layout'' \<and>
   derive_id md5 (metadataContent doc_grid_de) code = ''Aufbau'' \<and>
   mermaidCode_of doc_grid_en = mermaidCode_of doc_grid_de \<and>
   plan sample_node sample_options
     [(''docs/grid.md'', Some doc_grid_en), (''i18n/de/docs/grid.md'', Some doc_grid_de)] =
   Inr [\<lparr>task_id = ''layout'', task_locale = ''en'', filename = ''layout-en-light.svg'',
          mermaidCode = join_lines [''graph TD'', ''  Cell --> Row''],
          outputPath = ''static/img/diagrams/layout-en-light.svg''\<rparr>,
        \<lparr>task_id = ''Aufbau'', task_locale = ''de'', filename = ''Aufbau-de-light.svg'',
          mermaidCode = join_lines [''graph TD'', ''  Cell --> Row''],
          outputPath = ''static/img/diagrams/Aufbau-de-light.svg''\<rparr>]"
  by code_simp

section \<open>The cache\<close>

text \<open>
  Claim C5. A task whose output path exists is counted as skipped, and all it does is the
  access check and a console line: no file is written and no command is run. When every
  output path exists, the run ends with no task rendered and all skipped, and leaves
  the file system as it was; so does a second run on the files that a first run has left,
  when they hold every output.
\<close>

theorem execute_cache_respected:
  "(outputPath t \<in> files st \<longrightarrow>
      run_task nd ev opts st t =
        Inr (st\<lparr>skippedCount := skippedCount st + 1,
                 trace := trace st @
                   [Access (outputPath t), Console (SkippingCached (filename t))]\<rparr>)) \<and>
   ((\<forall>t\<in>set ts. outputPath t \<in> fs) \<longrightarrow>
      execute nd ev opts fs ts =
        Inr \<lparr>files = fs, renderedCount = 0, skippedCount = length ts,
             trace = concat (map (\<lambda>t. [Access (outputPath t),
                                         Console (SkippingCached (filename t))]) ts) @
                     [Console (BuildFinished (themeName opts)), Console (RenderedNew 0),
                      Console (SkippedCached (length ts))]\<rparr>) \<and>
   (execute nd ev opts fs ts = Inr st1 \<and> (\<forall>t\<in>set ts. outputPath t \<in> files st1) \<longrightarrow>
      (\<exists>st2. execute nd ev' opts (files st1) ts = Inr st2 \<and>
         renderedCount st2 = 0 \<and> skippedCount st2 = length ts \<and>
         files st2 = files st1 \<and> invocations (trace st2) = []))"
proof (intro conjI impI)
  assume "outputPath t \<in> files st"
  then show "run_task nd ev opts st t =
        Inr (st\<lparr>skippedCount := skippedCount st + 1,
                 trace := trace st @
                   [Access (outputPath t), Console (SkippingCached (filename t))]\<rparr>)"
    by (rule run_task_cached)
next
  assume "\<forall>t\<in>set ts. outputPath t \<in> fs"
  then show "execute nd ev opts fs ts =
        Inr \<lparr>files = fs, renderedCount = 0, skippedCount = length ts,
             trace = concat (map (\<lambda>t. [Access (outputPath t),
                                         Console (SkippingCached (filename t))]) ts) @
                     [Console (BuildFinished (themeName opts)), Console (RenderedNew 0),
                      Console (SkippedCached (length ts))]\<rparr>"
    by (simp add: execute_def run_tasks_all_cached)
next
  assume "execute nd ev opts fs ts = Inr st1 \<and> (\<forall>t\<in>set ts. outputPath t \<in> files st1)"
  then have "\<forall>t\<in>set ts. outputPath t \<in> files st1" ..
  then have "execute nd ev' opts (files st1) ts =
        Inr \<lparr>files = files st1, renderedCount = 0, skippedCount = length ts,
             trace = concat (map (\<lambda>t. [Access (outputPath t),
                                         Console (SkippingCached (filename t))]) ts) @
                     [Console (BuildFinished (themeName opts)), Console (RenderedNew 0),
                      Console (SkippedCached (length ts))]\<rparr>"
    by (simp add: execute_def run_tasks_all_cached)
  moreover have "invocations (concat (map (\<lambda>t. [Access (outputPath t),
      Console (SkippingCached (filename t))]) ts) @ es) = invocations es" for es
    by (induction ts) simp_all
  ultimately show "\<exists>st2. execute nd ev' opts (files st1) ts = Inr st2 \<and>
         renderedCount st2 = 0 \<and> skippedCount st2 = length ts \<and>
         files st2 = files st1 \<and> invocations (trace st2) = []"
    by simp
qed

theorem execute_cache_respected_witness:
  "outputPath task_a \<in> {outputPath task_a, outputPath task_b} \<and>
   outputPath task_b \<in> {outputPath task_a, outputPath task_b} \<and>
   execute sample_node sample_env sample_options {outputPath task_a, outputPath task_b}
     [task_a, task_b] =
     Inr \<lparr>files = {outputPath task_a, outputPath task_b}, renderedCount = 0, skippedCount = 2,
          trace = [Access (outputPath task_a), Console (SkippingCached ''a-en-light.svg''),
                   Access (outputPath task_b), Console (SkippingCached ''b-en-light.svg''),
                   Console (BuildFinished ''neutral''), Console (RenderedNew 0),
                   Console (SkippedCached 2)]\<rparr>"
proof -
  have h: "\<forall>t\<in>set [task_a, task_b]. outputPath t \<in> {outputPath task_a, outputPath task_b}"
    by simp
  from execute_cache_respected [THEN conjunct2, THEN conjunct1, THEN mp, OF h,
      of sample_node sample_env sample_options]
  have "execute sample_node sample_env sample_options {outputPath task_a, outputPath task_b}
     [task_a, task_b] =
     Inr \<lparr>files = {outputPath task_a, outputPath task_b}, renderedCount = 0,
          skippedCount = length [task_a, task_b],
          trace = concat (map (\<lambda>t. [Access (outputPath t),
                                     Console (SkippingCached (filename t))]) [task_a, task_b]) @
                  [Console (BuildFinished (themeName sample_options)), Console (RenderedNew 0),
                   Console (SkippedCached (length [task_a, task_b]))]\<rparr>" .
  then show ?thesis using h by (simp add: task_a_def task_b_def sample_options_def)
qed

section \<open>Cleanup of the temporary file\<close>

text \<open>
  Claim C7, as stated, fails. The write of the temporary file stands before the
  \<^verbatim>\<open>try\<close> whose \<^verbatim>\<open>finally\<close> deletes it. The task of a diagram with the identity
  \<^verbatim>\<open>a/b\<close> has a temporary file in a directory that does not exist; the task reaches the
  write, the write throws, and the call is rejected with that error: no renderer is run
  and no deletion is attempted.
\<close>

theorem cleanup_write_fails_counterexample:
  "plan sample_node sample_options [(''docs/a.md'', Some doc_slash_id)] =
     Inr [\<lparr>task_id = ''a/b'', task_locale = ''en'', filename = ''a/b-en-light.svg'',
            mermaidCode = join_lines [''graph TD'', ''  A --> B''],
            outputPath = ''static/img/diagrams/a/b-en-light.svg''\<rparr>] \<and>
   run_task sample_node env_no_directory sample_options
     \<lparr>files = {}, renderedCount = 0, skippedCount = 0, trace = []\<rparr>
     \<lparr>task_id = ''a/b'', task_locale = ''en'', filename = ''a/b-en-light.svg'',
       mermaidCode = join_lines [''graph TD'', ''  A --> B''],
       outputPath = ''static/img/diagrams/a/b-en-light.svg''\<rparr> =
     Inl (WriteFileError ''tmp/temp_a/b-en-light.svg.mmd'') \<and>
   renderAllMermaidDiagrams sample_node env_no_directory sample_options {}
     [(''docs/a.md'', Some doc_slash_id)] =
     Inl (WriteFileError ''tmp/temp_a/b-en-light.svg.mmd'')"
  by code_simp

text \<open>
  Claim C7, amended. Take a task whose output path does not exist and whose temporary file
  has been written. The renderer is run and then the deletion of the temporary file is
  attempted, whether the renderer succeeded or failed; the task ends normally whether the
  deletion succeeds or fails, and it is counted as rendered exactly when the renderer
  succeeded, whatever the deletion does.
\<close>

theorem cleanup_always_attempted:
  assumes "outputPath t \<notin> files st"
    and "writeFile_ok ev (tempInputFile nd opts t)"
  shows "\<exists>st'. run_task nd ev opts st t = Inr st' \<and>
     trace st' = trace st @
       [Access (outputPath t), Console (TempFileNotFound (tempInputFile nd opts t)),
        WriteFile (tempInputFile nd opts t) (mermaidCode t),
        Console (RenderingNew (filename t)), Exec (command nd opts t),
        Console ((if exec_ok ev (command nd opts t) then FinishedRendering
                  else FailedToRender) (filename t)),
        Unlink (tempInputFile nd opts t)] @
       (if unlink_ok ev (tempInputFile nd opts t) then []
        else [Console (FailedToDeleteTemp (tempInputFile nd opts t))]) \<and>
     renderedCount st' =
       renderedCount st + (if exec_ok ev (command nd opts t) then 1 else 0) \<and>
     skippedCount st' = skippedCount st"
  using run_task_rendered [OF assms] by blast

theorem cleanup_always_attempted_witness:
  "\<exists>st'. run_task sample_node (sample_env\<lparr>unlink_ok := (\<lambda>p. False)\<rparr>) sample_options
           \<lparr>files = {}, renderedCount = 0, skippedCount = 0, trace = []\<rparr> task_a = Inr st' \<and>
     trace st' =
       [Access ''static/img/diagrams/a-en-light.svg'',
        Console (TempFileNotFound ''tmp/temp_a-en-light.svg.mmd''),
        WriteFile ''tmp/temp_a-en-light.svg.mmd'' ''graph TD'',
        Console (RenderingNew ''a-en-light.svg''),
        Exec (command sample_node sample_options task_a),
        Console (FinishedRendering ''a-en-light.svg''),
        Unlink ''tmp/temp_a-en-light.svg.mmd'',
        Console (FailedToDeleteTemp ''tmp/temp_a-en-light.svg.mmd'')] \<and>
     renderedCount st' = 1 \<and> skippedCount st' = 0"
proof -
  let ?ev = "sample_env\<lparr>unlink_ok := (\<lambda>p. False)\<rparr>"
  let ?st = "\<lparr>files = {}, renderedCount = 0, skippedCount = 0, trace = []\<rparr>"
  have h1: "outputPath task_a \<notin> files ?st" by simp
  have h2: "writeFile_ok ?ev (tempInputFile sample_node sample_options task_a)"
    by (simp add: sample_env_def)
  have v: "exec_ok sample_env (command sample_node sample_options task_a)"
    "\<not> unlink_ok ?ev (tempInputFile sample_node sample_options task_a)"
    "tempInputFile sample_node sample_options task_a = ''tmp/temp_a-en-light.svg.mmd''"
    "outputPath task_a = ''static/img/diagrams/a-en-light.svg''"
    "filename task_a = ''a-en-light.svg''" "mermaidCode task_a = ''graph TD''"
    by code_simp+
  from cleanup_always_attempted [OF h1 h2]
  show ?thesis by (simp add: v)
qed

section \<open>Failure isolation\<close>

text \<open>
  Claim C1, as stated, fails. The renderer fails on the second of two tasks. The run goes
  on to its end; the state in which it ends has the counters of the rendered and of the
  skipped tasks and no counter of failed tasks; the failure appears as one console line
  for the task, and the summary reports the two counters. Nothing is returned.
\<close>

theorem execute_failure_counterexample:
  "execute sample_node sample_env sample_options {} [task_a, task_b] =
     Inr \<lparr>files = {''static/img/diagrams/a-en-light.svg''},
          renderedCount = 1, skippedCount = 0,
          trace =
            [Access ''static/img/diagrams/a-en-light.svg'',
             Console (TempFileNotFound ''tmp/temp_a-en-light.svg.mmd''),
             WriteFile ''tmp/temp_a-en-light.svg.mmd'' ''graph TD'',
             Console (RenderingNew ''a-en-light.svg''),
             Exec (command sample_node sample_options task_a),
             Console (FinishedRendering ''a-en-light.svg''),
             Unlink ''tmp/temp_a-en-light.svg.mmd'',
             Access ''static/img/diagrams/b-en-light.svg'',
             Console (TempFileNotFound ''tmp/temp_b-en-light.svg.mmd''),
             WriteFile ''tmp/temp_b-en-light.svg.mmd'' ''graph LR'',
             Console (RenderingNew ''b-en-light.svg''),
             Exec (command sample_node sample_options task_b),
             Console (FailedToRender ''b-en-light.svg''),
             Unlink ''tmp/temp_b-en-light.svg.mmd'',
             Console (BuildFinished ''neutral''),
             Console (RenderedNew 1),
             Console (SkippedCached 0)]\<rparr>"
  by code_simp

text \<open>
  Claim C1, amended. Take tasks whose renderer is run: no output path exists, the output
  paths differ from each other and from the temporary paths, and every temporary file can
  be written. When the renderer fails for exactly one of them, the run goes through all
  the tasks and ends with the rendered counter at the number of tasks minus one and the
  skipped counter at zero; every command has been run, one render failure has been
  reported on the console, and the summary reports the rendered and the skipped count.
\<close>

theorem execute_failure_isolation:
  assumes "\<forall>t\<in>set ts. outputPath t \<notin> fs"
    and "distinct (map outputPath ts)"
    and "\<forall>t\<in>set ts. \<forall>u\<in>set ts. tempInputFile nd opts t \<noteq> outputPath u"
    and "\<forall>t\<in>set ts. writeFile_ok ev (tempInputFile nd opts t)"
    and "length (filter (\<lambda>t. \<not> exec_ok ev (command nd opts t)) ts) = 1"
  shows "\<exists>st. execute nd ev opts fs ts = Inr st \<and>
     renderedCount st = length ts - 1 \<and> skippedCount st = 0 \<and>
     invocations (trace st) = map (command nd opts) ts \<and>
     length (failedRenders (trace st)) = 1 \<and>
     (\<exists>tr. trace st = tr @ [Console (BuildFinished (themeName opts)),
                            Console (RenderedNew (length ts - 1)),
                            Console (SkippedCached 0)])"
proof -
  let ?st0 = "\<lparr>files = fs, renderedCount = 0, skippedCount = 0, trace = []\<rparr>"
  from assms(1) have h1: "\<forall>t\<in>set ts. outputPath t \<notin> files ?st0" by simp
  from run_tasks_all_invoked [OF h1 assms(2) assms(3) assms(4)] obtain st' where
    r: "run_tasks nd ev opts ?st0 ts = Inr st'" and
    rc: "renderedCount st' = length (filter (\<lambda>t. exec_ok ev (command nd opts t)) ts)" and
    sc: "skippedCount st' = 0" and
    iv: "invocations (trace st') = map (command nd opts) ts" and
    fr: "failedRenders (trace st') =
           map filename (filter (\<lambda>t. \<not> exec_ok ev (command nd opts t)) ts)"
    by auto
  from filter_complement_length [of "\<lambda>t. exec_ok ev (command nd opts t)" ts] assms(5) rc
  have rc': "renderedCount st' = length ts - 1" by simp
  let ?sum = "[Console (BuildFinished (themeName opts)), Console (RenderedNew (length ts - 1)),
               Console (SkippedCached 0)]"
  let ?st = "st'\<lparr>trace := trace st' @ ?sum\<rparr>"
  from r rc' sc have e: "execute nd ev opts fs ts = Inr ?st" by (simp add: execute_def)
  have "renderedCount ?st = length ts - 1" using rc' by simp
  moreover have "skippedCount ?st = 0" using sc by simp
  moreover have "invocations (trace ?st) = map (command nd opts) ts"
    using iv by (simp add: invocations_append)
  moreover have "length (failedRenders (trace ?st)) = 1"
    using fr assms(5) by (simp add: failedRenders_append)
  moreover have "\<exists>tr. trace ?st = tr @ ?sum" by simp
  ultimately show ?thesis using e by blast
qed

theorem execute_failure_isolation_witness:
  "\<exists>st. execute sample_node sample_env sample_options {} [task_a, task_b] = Inr st \<and>
     renderedCount st = 1 \<and> skippedCount st = 0 \<and>
     invocations (trace st) =
       [command sample_node sample_options task_a, command sample_node sample_options task_b] \<and>
     length (failedRenders (trace st)) = 1"
proof -
  have h1: "\<forall>t\<in>set [task_a, task_b]. outputPath t \<notin> {}" by simp
  have h2: "distinct (map outputPath [task_a, task_b])" by code_simp
  have h3: "\<forall>t\<in>set [task_a, task_b]. \<forall>u\<in>set [task_a, task_b].
      tempInputFile sample_node sample_options t \<noteq> outputPath u"
    by code_simp
  have h4: "\<forall>t\<in>set [task_a, task_b].
      writeFile_ok sample_env (tempInputFile sample_node sample_options t)"
    by (simp add: sample_env_def)
  have h5: "length (filter (\<lambda>t. \<not> exec_ok sample_env (command sample_node sample_options t))
      [task_a, task_b]) = 1"
    by code_simp
  from execute_failure_isolation [OF h1 h2 h3 h4 h5]
  show ?thesis by auto
qed

section \<open>The markup transformer and the renderer\<close>

text \<open>
  Claim C9 does not hold on the code: the transformer can name an image that the renderer
  never plans. The renderer skips a whole file whose content matches the draft pattern,
  and the pattern is searched in the whole content, the diagrams included; the
  transformer has no such test. The content file holds one diagram, a node of which is
  labelled \<^verbatim>\<open>draft: true\<close>, and the value of its code node is the text between the
  fences. The transformer emits the names of a light and a dark image for it; the renderer
  plans no task for the file, whatever its options.
\<close>

theorem remark_names_unrendered_file:
  "doc_draft_label =
     join_lines [''# Publishing'', [], ''```mermaid'', value_draft_label, ''```''] \<and>
   remark_filenames md5 sample_store ''/site/docs/publishing.md'' value_draft_label =
     Some [''flow-en-light.svg'', ''flow-en-dark.svg''] \<and>
   draftRegex doc_draft_label \<and>
   plan nd opts [(relativePath, Some doc_draft_label)] = Inr []"
  by code_simp

end
